theory Spec2Isabelle
  imports Complex_Main
begin

section \<open>Data model of the prompt-dj component (src/index.tsx)\<close>

text \<open>
  The component \<^verbatim>\<open>PromptDj\<close> is a single object whose fields are mutated by event
  handlers that run one at a time on the event loop. The model is a record of those
  fields, and every handler is a function from the record to the updated record.

  Numbers of the source (\<^verbatim>\<open>number\<close>, IEEE doubles) that measure audio time or a
  prompt weight are modelled as \<open>real\<close>; \<^verbatim>\<open>Date.now()\<close> is an integer number of
  milliseconds and is modelled as \<open>int\<close>. Where the source adds two doubles the model
  adds the reals: the rounding of binary64 is not modelled, so nothing below states how
  a sum of buffer durations compares with the cursor.

  Calls into the browser and into the session of the generation service have no
  result that the component reads back. They are recorded, in call order, in log
  fields of the record (\<open>sessionCalls\<close>, \<open>toasts\<close>, \<open>started\<close>, \<open>gainCalls\<close>,
  \<open>decodeCalls\<close>, \<open>timers\<close>, \<open>connecting\<close>, \<open>uncaught\<close>), so that "a buffer was
  scheduled" or "a notification was shown" is a statement about the record.
\<close>

datatype PlaybackState = stopped | playing | loading | paused

text \<open>
  The interface \<^verbatim>\<open>Prompt\<close>. Its field \<^verbatim>\<open>text\<close> is named \<open>textP\<close> here, since
  \<^verbatim>\<open>text\<close> is a keyword of the theory language.
\<close>

record Prompt =
  promptId :: string
  color :: string
  textP :: string
  weight :: real

text \<open>
  An \<^verbatim>\<open>AudioBuffer\<close> of the Web Audio API: its length in sample frames and its
  sample rate. The attribute \<^verbatim>\<open>duration\<close> that the handler reads is their quotient.
\<close>

record AudioBuffer =
  bufLength :: nat
  sampleRate :: nat

definition duration :: "AudioBuffer \<Rightarrow> real" where
  "duration b = real (bufLength b) / real (sampleRate b)"

text \<open>
  \<^verbatim>\<open>LiveMusicServerMessage\<close>, with the three optional parts the handler looks at.
  \<open>audioChunks\<close> is \<^verbatim>\<open>e.serverContent?.audioChunks\<close>: \<open>None\<close> when it is undefined,
  otherwise the list of the chunks' base64 \<^verbatim>\<open>data\<close> strings.
\<close>

record ServerMessage =
  setupComplete :: bool
  filteredPrompt :: "(string \<times> string) option"
  audioChunks :: "string list option"

datatype SessionCall =
    Connect
  | Play
  | Pause
  | Stop
  | SetWeightedPrompts "Prompt list"
  | SetMusicGenerationConfig

text \<open>Calls on the \<^verbatim>\<open>gain\<close> parameter of a gain node: the gain, then the time.\<close>

datatype GainCall =
    SetValueAtTime real real
  | LinearRampToValueAtTime real real

datatype Uncaught = TypeError | DecodeError | ConnectError

record PromptDj =
  prompts :: "(string \<times> Prompt) list"
  nextPromptId :: nat
  nextStartTime :: real
  playbackState :: PlaybackState
  filteredPrompts :: "string set"
  connectionError :: bool
  sequencerGrid :: "int list list"
  sequencerWeight :: real
  currentBpm :: real
  syncLastCall :: int
  outputNode :: nat
  sessionCalls :: "SessionCall list"
  toasts :: "string list"
  started :: "(real \<times> AudioBuffer \<times> nat) list"
  gainCalls :: "(nat \<times> GainCall) list"
  decodeCalls :: nat
  timers :: nat
  connecting :: nat
  uncaught :: "Uncaught list"

text \<open>
  \<open>prompts\<close> is the \<^verbatim>\<open>Map\<close> from prompt id to prompt, kept as an association list in
  insertion order (the order of \<^verbatim>\<open>prompts.values()\<close>). \<open>syncLastCall\<close> is the
  variable \<^verbatim>\<open>lastCall\<close> captured by the closure that \<^verbatim>\<open>throttle\<close> returns for \<^verbatim>\<open>setSessionPrompts\<close>.
  \<open>outputNode\<close> identifies the current gain node; \<open>createGain\<close> yields the next
  identifier. \<open>started\<close> logs every \<^verbatim>\<open>source.start(when)\<close> with the buffer of the
  source and the gain node it was connected to. \<open>timers\<close> counts the pending
  \<^verbatim>\<open>setTimeout\<close> callbacks that will set the state to \<open>playing\<close>. \<open>connecting\<close>
  counts the calls of \<^verbatim>\<open>handlePlayPause\<close> that are suspended at
  \<^verbatim>\<open>await this.connectToSession()\<close>. \<open>uncaught\<close> logs the exceptions that leave a
  handler; what the handler changed before is kept.
\<close>

section \<open>Audio control: pauseAudio, loadAudio, stopAudio\<close>

text \<open>
  The three functions read the audio clock, here the argument \<open>currentTime\<close>. The
  session handle is taken to exist: the component has connected once. The call
  \<^verbatim>\<open>audioContext.resume()\<close> of \<^verbatim>\<open>loadAudio\<close> changes no field and is not logged.
\<close>

definition bufferTime :: real where
  "bufferTime = 2"

definition pauseAudio :: "real \<Rightarrow> PromptDj \<Rightarrow> PromptDj" where
  "pauseAudio currentTime s =
     s\<lparr>sessionCalls := sessionCalls s @ [Pause],
       playbackState := paused,
       gainCalls := gainCalls s @
         [(outputNode s, SetValueAtTime 1 currentTime),
          (outputNode s, LinearRampToValueAtTime 0 (currentTime + 0.1))],
       nextStartTime := 0,
       outputNode := outputNode s + 1\<rparr>"

definition loadAudio :: "real \<Rightarrow> PromptDj \<Rightarrow> PromptDj" where
  "loadAudio currentTime s =
     s\<lparr>sessionCalls := sessionCalls s @ [Play],
       playbackState := loading,
       gainCalls := gainCalls s @
         [(outputNode s, SetValueAtTime 0 currentTime),
          (outputNode s, LinearRampToValueAtTime 1 (currentTime + 0.1))]\<rparr>"

definition stopAudio :: "real \<Rightarrow> PromptDj \<Rightarrow> PromptDj" where
  "stopAudio currentTime s =
     s\<lparr>sessionCalls := sessionCalls s @ [Stop],
       playbackState := stopped,
       gainCalls := gainCalls s @
         [(outputNode s, SetValueAtTime 0 currentTime),
          (outputNode s, LinearRampToValueAtTime 1 (currentTime + 0.1))],
       nextStartTime := 0\<rparr>"

section \<open>The session callbacks: onmessage, onerror, onclose\<close>

text \<open>
  The part of \<^verbatim>\<open>onmessage\<close> after the buffer is decoded (source lines 1726 to 1744):
  anchor the cursor when it is 0 and arm the timer; on an underrun reset and return;
  otherwise start the source at the cursor and advance the cursor.
\<close>

definition scheduleChunk :: "real \<Rightarrow> AudioBuffer \<Rightarrow> PromptDj \<Rightarrow> PromptDj" where
  "scheduleChunk currentTime audioBuffer s =
     (let s1 = (if nextStartTime s = 0
                then s\<lparr>nextStartTime := currentTime + bufferTime, timers := timers s + 1\<rparr>
                else s)
      in if nextStartTime s1 < currentTime
         then s1\<lparr>playbackState := loading, nextStartTime := 0\<rparr>
         else s1\<lparr>started := started s1 @ [(nextStartTime s1, audioBuffer, outputNode s1)],
                 nextStartTime := nextStartTime s1 + duration audioBuffer\<rparr>)"

text \<open>
  \<^verbatim>\<open>decode\<close> and \<^verbatim>\<open>decodeAudioData\<close> come from \<^verbatim>\<open>./utils\<close>, which is not part of the
  source at hand: their composition is the parameter \<open>dec\<close>, from the chunk's data to
  the decoded buffer, \<open>None\<close> when decoding throws. An empty chunk list makes
  \<^verbatim>\<open>audioChunks[0].data\<close> throw a TypeError. \<open>onmessage\<close> is the handler when no
  other handler runs while it awaits the decoder. When others do run, the rest of the
  handler is \<open>scheduleChunk\<close> on the state they left: the event \<open>ChunkResumes\<close> below.
\<close>

definition onmessage ::
  "(string \<Rightarrow> AudioBuffer option) \<Rightarrow> real \<Rightarrow> ServerMessage \<Rightarrow> PromptDj \<Rightarrow> PromptDj" where
  "onmessage dec currentTime e s =
     (let s1 = (if setupComplete e then s\<lparr>connectionError := False\<rparr> else s);
          s2 = (case filteredPrompt e of
                  None \<Rightarrow> s1
                | Some (txt, filteredReason) \<Rightarrow>
                    s1\<lparr>filteredPrompts := insert txt (filteredPrompts s1),
                       toasts := toasts s1 @ [filteredReason]\<rparr>)
      in case audioChunks e of
           None \<Rightarrow> s2
         | Some chunks \<Rightarrow>
             if playbackState s2 = paused \<or> playbackState s2 = stopped then s2
             else (case chunks of
                     [] \<Rightarrow> s2\<lparr>uncaught := uncaught s2 @ [TypeError]\<rparr>
                   | c # _ \<Rightarrow>
                       (case dec c of
                          None \<Rightarrow> s2\<lparr>decodeCalls := decodeCalls s2 + 1,
                                     uncaught := uncaught s2 @ [DecodeError]\<rparr>
                        | Some audioBuffer \<Rightarrow>
                            scheduleChunk currentTime audioBuffer
                              (s2\<lparr>decodeCalls := decodeCalls s2 + 1\<rparr>))))"

definition connectionErrorToast :: string where
  "connectionErrorToast = ''Connection error, please restart audio.''"

definition onerror :: "real \<Rightarrow> PromptDj \<Rightarrow> PromptDj" where
  "onerror currentTime s =
     (let s1 = stopAudio currentTime (s\<lparr>connectionError := True\<rparr>)
      in s1\<lparr>toasts := toasts s1 @ [connectionErrorToast]\<rparr>)"

definition onclose :: "real \<Rightarrow> PromptDj \<Rightarrow> PromptDj" where
  "onclose currentTime s =
     (let s1 = stopAudio currentTime (s\<lparr>connectionError := True\<rparr>)
      in s1\<lparr>toasts := toasts s1 @ [connectionErrorToast]\<rparr>)"

text \<open>The callback armed by \<^verbatim>\<open>setTimeout\<close> when the cursor is anchored.\<close>

definition timerFires :: "PromptDj \<Rightarrow> PromptDj" where
  "timerFires s =
     (if timers s = 0 then s
      else s\<lparr>playbackState := playing, timers := timers s - 1\<rparr>)"

section \<open>The rate limiter: throttle\<close>

text \<open>
  \<^verbatim>\<open>throttle(func, delay)\<close> returns a closure over the variable \<^verbatim>\<open>lastCall\<close>. One call of
  the closure at clock reading \<open>now\<close> with arguments \<open>args\<close> is a step on the pair of
  \<^verbatim>\<open>lastCall\<close> and the state \<open>func\<close> acts on: \<open>func\<close> runs first, then \<^verbatim>\<open>lastCall\<close> is set.
\<close>

definition throttle ::
  "('a \<Rightarrow> 's \<Rightarrow> 's) \<Rightarrow> int \<Rightarrow> int \<Rightarrow> 'a \<Rightarrow> int \<times> 's \<Rightarrow> int \<times> 's" where
  "throttle func delay now args st =
     (case st of (lastCall, s) \<Rightarrow>
        (let timeSinceLastCall = now - lastCall
         in if timeSinceLastCall \<ge> delay then (now, func args s) else (lastCall, s)))"

text \<open>A run of calls of one throttled closure, each with its clock reading.\<close>

fun throttledCalls ::
  "('a \<Rightarrow> 's \<Rightarrow> 's) \<Rightarrow> int \<Rightarrow> (int \<times> 'a) list \<Rightarrow> int \<times> 's \<Rightarrow> int \<times> 's" where
  "throttledCalls func delay [] st = st"
| "throttledCalls func delay ((now, args) # calls) st =
     throttledCalls func delay calls (throttle func delay now args st)"

text \<open>A callback that only records the arguments it is called with.\<close>

definition recordCall :: "'a \<Rightarrow> 'a list \<Rightarrow> 'a list" where
  "recordCall args calls = calls @ [args]"

section \<open>The payload: generateSequencerPrompt and setSessionPrompts\<close>

definition instruments :: "string list" where
  "instruments =
     [''kick drum'', ''snare drum'', ''clap'', ''closed hi-hat'', ''open hi-hat'', ''toms'']"

text \<open>\<^verbatim>\<open>instruments[i]\<close> inside a template string: past the end it prints as undefined.\<close>

definition instrumentAt :: "nat \<Rightarrow> string" where
  "instrumentAt i = (if i < length instruments then instruments ! i else ''undefined'')"

definition preamble :: string where
  "preamble = ''A brutal heavy bass and percussion track. ''"

definition clause :: "nat \<Rightarrow> string" where
  "clause i = ''It features a prominent '' @ instrumentAt i @ ''. ''"

definition hasNotes :: "int list \<Rightarrow> bool" where
  "hasNotes track = (\<exists>step \<in> set track. step = 1)"

text \<open>The \<^verbatim>\<open>forEach\<close> over the tracks, from index \<open>i\<close> on, on the two variables it updates.\<close>

fun forEachTrack :: "int list list \<Rightarrow> nat \<Rightarrow> string \<times> nat \<Rightarrow> string \<times> nat" where
  "forEachTrack [] i acc = acc"
| "forEachTrack (track # rest) i (description, activeInstruments) =
     forEachTrack rest (i + 1)
       (if hasNotes track
        then (description @ clause i, activeInstruments + 1)
        else (description, activeInstruments))"

definition generateSequencerPrompt :: "PromptDj \<Rightarrow> string" where
  "generateSequencerPrompt s =
     (if sequencerWeight s = 0 then []
      else (case forEachTrack (sequencerGrid s) 0 (preamble, 0) of
              (description, activeInstruments) \<Rightarrow>
                if activeInstruments = 0 then [] else description))"

definition sequencerId :: string where
  "sequencerId = ''prompt-sequencer''"

text \<open>The filter over \<^verbatim>\<open>prompts.values()\<close>, then the push of the synthetic prompt.\<close>

definition userPromptsToSend :: "PromptDj \<Rightarrow> Prompt list" where
  "userPromptsToSend s =
     filter (\<lambda>p. \<not> (textP p \<in> filteredPrompts s) \<and> weight p \<noteq> 0) (map snd (prompts s))"

definition promptsToSend :: "PromptDj \<Rightarrow> Prompt list" where
  "promptsToSend s =
     (let sequencerPromptText = generateSequencerPrompt s
      in if sequencerPromptText \<noteq> [] \<and> sequencerWeight s > 0
         then userPromptsToSend s @
              [\<lparr>promptId = sequencerId, color = ''#ff0044'',
                textP = sequencerPromptText, weight = sequencerWeight s\<rparr>]
         else userPromptsToSend s)"

definition sendPrompts :: "PromptDj \<Rightarrow> PromptDj" where
  "sendPrompts s = s\<lparr>sessionCalls := sessionCalls s @ [SetWeightedPrompts (promptsToSend s)]\<rparr>"

text \<open>
  \<^verbatim>\<open>setSessionPrompts = throttle(async () => {...}, 200)\<close>. The callback runs up to the
  call of \<^verbatim>\<open>session.setWeightedPrompts\<close> at once. When that call is rejected, the
  \<^verbatim>\<open>catch\<close> block runs later, as an event of its own: \<open>sendRejected\<close>.
\<close>

definition setSessionPrompts :: "int \<Rightarrow> PromptDj \<Rightarrow> PromptDj" where
  "setSessionPrompts now s =
     (case throttle (\<lambda>_. sendPrompts) 200 now () (syncLastCall s, s) of
        (lc, s') \<Rightarrow> s'\<lparr>syncLastCall := lc\<rparr>)"

definition sendRejected :: "string \<Rightarrow> real \<Rightarrow> PromptDj \<Rightarrow> PromptDj" where
  "sendRejected message currentTime s =
     pauseAudio currentTime (s\<lparr>toasts := toasts s @ [message]\<rparr>)"

section \<open>The user's actions\<close>

text \<open>
  \<^verbatim>\<open>connectToSession\<close> opens a new session with the same three callbacks. It assigns
  \<^verbatim>\<open>this.session\<close> and no other field.
\<close>

definition connectToSession :: "PromptDj \<Rightarrow> PromptDj" where
  "connectToSession s = s\<lparr>sessionCalls := sessionCalls s @ [Connect]\<rparr>"

text \<open>
  \<^verbatim>\<open>handlePlayPause\<close> up to its first suspension. In paused or stopped with the
  connection in error it calls \<^verbatim>\<open>connectToSession\<close> and suspends at the \<^verbatim>\<open>await\<close>;
  other handlers run before it goes on. In every other case it runs to its end.
\<close>

definition handlePlayPause :: "real \<Rightarrow> PromptDj \<Rightarrow> PromptDj" where
  "handlePlayPause currentTime s =
     (if playbackState s = playing then pauseAudio currentTime s
      else if playbackState s = paused \<or> playbackState s = stopped then
        (if connectionError s
         then (connectToSession s)\<lparr>connecting := connecting s + 1\<rparr>
         else loadAudio currentTime s)
      else if playbackState s = loading then stopAudio currentTime s
      else s)"

text \<open>
  The rest of a suspended \<^verbatim>\<open>handlePlayPause\<close>, when the connection resolves:
  \<^verbatim>\<open>this.setSessionPrompts(); this.loadAudio()\<close>, on the state as it is by then and
  without a second look at \<^verbatim>\<open>playbackState\<close>.
\<close>

definition handlePlayPauseResumes :: "real \<Rightarrow> int \<Rightarrow> PromptDj \<Rightarrow> PromptDj" where
  "handlePlayPauseResumes currentTime now s =
     (if connecting s = 0 then s
      else loadAudio currentTime (setSessionPrompts now (s\<lparr>connecting := connecting s - 1\<rparr>)))"

text \<open>When the connection is rejected, the exception leaves the suspended handler.\<close>

definition handlePlayPauseFails :: "PromptDj \<Rightarrow> PromptDj" where
  "handlePlayPauseFails s =
     (if connecting s = 0 then s
      else s\<lparr>connecting := connecting s - 1, uncaught := uncaught s @ [ConnectError]\<rparr>)"

text \<open>\<^verbatim>\<open>Map.set\<close>: an existing key keeps its place, a new key goes to the end.\<close>

fun mapSet :: "string \<Rightarrow> Prompt \<Rightarrow> (string \<times> Prompt) list \<Rightarrow> (string \<times> Prompt) list" where
  "mapSet k v [] = [(k, v)]"
| "mapSet k v ((k', v') # m) = (if k' = k then (k, v) # m else (k', v') # mapSet k v m)"

definition mapDelete :: "string \<Rightarrow> (string \<times> Prompt) list \<Rightarrow> (string \<times> Prompt) list" where
  "mapDelete k m = filter (\<lambda>kv. fst kv \<noteq> k) m"

definition handlePromptChanged ::
  "string \<Rightarrow> string \<Rightarrow> real \<Rightarrow> int \<Rightarrow> PromptDj \<Rightarrow> PromptDj" where
  "handlePromptChanged pid txt w now s =
     (case map_of (prompts s) pid of
        None \<Rightarrow> s
      | Some prompt \<Rightarrow>
          setSessionPrompts now
            (s\<lparr>prompts := mapSet pid (prompt\<lparr>textP := txt, weight := w\<rparr>) (prompts s)\<rparr>))"

fun showNat :: "nat \<Rightarrow> string" where
  "showNat n =
     (if n < 10 then [char_of (48 + n)]
      else showNat (n div 10) @ [char_of (48 + n mod 10)])"

text \<open>The colour is drawn at random in the source: here it is an input.\<close>

definition handleAddPrompt :: "string \<Rightarrow> int \<Rightarrow> PromptDj \<Rightarrow> PromptDj" where
  "handleAddPrompt col now s =
     (let newPromptId = ''prompt-'' @ showNat (nextPromptId s);
          newPrompt = \<lparr>promptId = newPromptId, color = col,
                       textP = ''New Prompt'', weight = 0\<rparr>
      in setSessionPrompts now
           (s\<lparr>nextPromptId := nextPromptId s + 1,
              prompts := mapSet newPromptId newPrompt (prompts s)\<rparr>))"

definition handlePromptRemoved :: "string \<Rightarrow> int \<Rightarrow> PromptDj \<Rightarrow> PromptDj" where
  "handlePromptRemoved promptIdToRemove now s =
     (if map_of (prompts s) promptIdToRemove \<noteq> None
      then setSessionPrompts now (s\<lparr>prompts := mapDelete promptIdToRemove (prompts s)\<rparr>)
      else s)"

definition handleSequencerChange :: "int list list \<Rightarrow> real \<Rightarrow> int \<Rightarrow> PromptDj \<Rightarrow> PromptDj" where
  "handleSequencerChange grid w now s =
     setSessionPrompts now (s\<lparr>sequencerGrid := grid, sequencerWeight := w\<rparr>)"

text \<open>Of the configuration only \<^verbatim>\<open>bpm\<close> is read: it is kept when defined and not 0.\<close>

definition handleSettingsChange :: "real option \<Rightarrow> PromptDj \<Rightarrow> PromptDj" where
  "handleSettingsChange bpm s =
     (let s1 = s\<lparr>sessionCalls := sessionCalls s @ [SetMusicGenerationConfig]\<rparr>
      in case bpm of
           None \<Rightarrow> s1
         | Some b \<Rightarrow> if b \<noteq> 0 then s1\<lparr>currentBpm := b\<rparr> else s1)"

text \<open>
  \<^verbatim>\<open>resetToDefaults\<close> dispatches the default configuration, which has no \<^verbatim>\<open>bpm\<close>, to
  \<^verbatim>\<open>handleSettingsChange\<close>; then the notification is shown.
\<close>

definition handleReset :: "PromptDj \<Rightarrow> PromptDj" where
  "handleReset s =
     (let s1 = handleSettingsChange None s
      in s1\<lparr>toasts := toasts s1 @ [''Settings reset to default'']\<rparr>)"

section \<open>The component as a state machine\<close>

text \<open>
  Every callback that can run on the event loop, with the inputs it reads from outside
  the component: the audio clock (\<^verbatim>\<open>audioContext.currentTime\<close>), the wall clock
  (\<^verbatim>\<open>Date.now()\<close>), and what the collaborators pass in. The parts of a handler after
  an \<^verbatim>\<open>await\<close> are events of their own: \<open>SendRejected\<close> (the \<^verbatim>\<open>catch\<close> block of the
  prompt sync), \<open>ConnectResolved\<close> and \<open>ConnectRejected\<close> (the rest of
  \<^verbatim>\<open>handlePlayPause\<close>), and \<open>ChunkResumes\<close> (the rest of \<^verbatim>\<open>onmessage\<close> for a buffer
  whose decoding ended after other handlers ran; \<open>Message\<close> is the whole handler when
  none did).
\<close>

datatype Event =
    Message real ServerMessage
  | OnError real
  | OnClose real
  | TimerFires
  | SendRejected string real
  | ChunkResumes real AudioBuffer
  | PlayPause real
  | ConnectResolved real int
  | ConnectRejected
  | PromptChanged string string real int
  | AddPrompt string int
  | PromptRemoved string int
  | SequencerChanged "int list list" real int
  | SettingsChanged "real option"
  | Reset

fun step :: "(string \<Rightarrow> AudioBuffer option) \<Rightarrow> Event \<Rightarrow> PromptDj \<Rightarrow> PromptDj" where
  "step dec (Message currentTime e) s = onmessage dec currentTime e s"
| "step dec (OnError currentTime) s = onerror currentTime s"
| "step dec (OnClose currentTime) s = onclose currentTime s"
| "step dec TimerFires s = timerFires s"
| "step dec (SendRejected message currentTime) s = sendRejected message currentTime s"
| "step dec (ChunkResumes currentTime audioBuffer) s = scheduleChunk currentTime audioBuffer s"
| "step dec (PlayPause currentTime) s = handlePlayPause currentTime s"
| "step dec (ConnectResolved currentTime now) s = handlePlayPauseResumes currentTime now s"
| "step dec ConnectRejected s = handlePlayPauseFails s"
| "step dec (PromptChanged pid txt w now) s = handlePromptChanged pid txt w now s"
| "step dec (AddPrompt col now) s = handleAddPrompt col now s"
| "step dec (PromptRemoved pid now) s = handlePromptRemoved pid now s"
| "step dec (SequencerChanged grid w now) s = handleSequencerChange grid w now s"
| "step dec (SettingsChanged bpm) s = handleSettingsChange bpm s"
| "step dec Reset s = handleReset s"

fun run :: "(string \<Rightarrow> AudioBuffer option) \<Rightarrow> Event list \<Rightarrow> PromptDj \<Rightarrow> PromptDj" where
  "run dec [] s = s"
| "run dec (ev # evs) s = run dec evs (step dec ev s)"

text \<open>
  The component as constructed: the field initialisers and the constructor, with the
  prompt map passed in by the page. \<^verbatim>\<open>initializeSequencer\<close> fills the 6 by 16 grid
  with zeros.
\<close>

definition initialState :: "(string \<times> Prompt) list \<Rightarrow> PromptDj" where
  "initialState ps =
     \<lparr>prompts = ps, nextPromptId = 0, nextStartTime = 0, playbackState = stopped,
      filteredPrompts = {}, connectionError = True,
      sequencerGrid = replicate 6 (replicate 16 0), sequencerWeight = 0,
      currentBpm = 120, syncLastCall = 0, outputNode = 0, sessionCalls = [], toasts = [],
      started = [], gainCalls = [], decodeCalls = 0, timers = 0, connecting = 0,
      uncaught = []\<rparr>"

text \<open>
  \<^verbatim>\<open>firstUpdated\<close>, with its connection resolving before any other handler runs: what
  follows its \<^verbatim>\<open>await\<close> is the first prompt sync and nothing else.
\<close>

definition firstUpdated :: "int \<Rightarrow> PromptDj \<Rightarrow> PromptDj" where
  "firstUpdated now s =
     setSessionPrompts now (connectToSession (s\<lparr>nextPromptId := length (prompts s)\<rparr>))"

text \<open>A message that carries audio chunks and nothing else.\<close>

definition chunkMessage :: "string list \<Rightarrow> ServerMessage" where
  "chunkMessage chunks =
     \<lparr>setupComplete = False, filteredPrompt = None, audioChunks = Some chunks\<rparr>"

text \<open>The buffer the handler decodes from a message, when there is one.\<close>

definition chunkBuffer :: "(string \<Rightarrow> AudioBuffer option) \<Rightarrow> ServerMessage \<Rightarrow> AudioBuffer option" where
  "chunkBuffer dec e =
     (case audioChunks e of
        None \<Rightarrow> None
      | Some [] \<Rightarrow> None
      | Some (c # _) \<Rightarrow> dec c)"

text \<open>
  The underrun test of the handler, on the cursor as the message finds it: a cursor of
  0 is anchored two seconds ahead of the clock first and so never underruns.
\<close>

definition underrun :: "real \<Rightarrow> PromptDj \<Rightarrow> bool" where
  "underrun currentTime s = (nextStartTime s \<noteq> 0 \<and> nextStartTime s < currentTime)"

text \<open>
  The prompt sync \<open>setSessionPrompts\<close> is invoked at the end of the handlers of the
  user's edits and in the rest of \<^verbatim>\<open>handlePlayPause\<close> after a reconnect. \<open>dateNow\<close> is
  the reading of \<^verbatim>\<open>Date.now()\<close> in that invocation; the other events do not read the
  wall clock. \<open>callsSync\<close> says whether the handler reaches the invocation in the
  state at hand (\<^verbatim>\<open>handlePromptChanged\<close> and \<^verbatim>\<open>handlePromptRemoved\<close> return early on
  an unknown prompt id).
\<close>

fun dateNow :: "Event \<Rightarrow> int option" where
  "dateNow (PromptChanged pid newText w now) = Some now"
| "dateNow (AddPrompt col now) = Some now"
| "dateNow (PromptRemoved pid now) = Some now"
| "dateNow (SequencerChanged grid w now) = Some now"
| "dateNow (ConnectResolved currentTime now) = Some now"
| "dateNow _ = None"

fun callsSync :: "Event \<Rightarrow> PromptDj \<Rightarrow> bool" where
  "callsSync (PromptChanged pid newText w now) s = (map_of (prompts s) pid \<noteq> None)"
| "callsSync (AddPrompt col now) s = True"
| "callsSync (PromptRemoved pid now) s = (map_of (prompts s) pid \<noteq> None)"
| "callsSync (SequencerChanged grid w now) s = True"
| "callsSync (ConnectResolved currentTime now) s = (connecting s > 0)"
| "callsSync _ s = False"

text \<open>The payloads of the \<^verbatim>\<open>setWeightedPrompts\<close> calls in a log of session calls.\<close>

fun sentPayloads :: "SessionCall list \<Rightarrow> Prompt list list" where
  "sentPayloads [] = []"
| "sentPayloads (SetWeightedPrompts payload # calls) = payload # sentPayloads calls"
| "sentPayloads (c # calls) = sentPayloads calls"

section \<open>Example inputs\<close>

text \<open>
  A decoder that fails on empty data and otherwise yields one second of audio at
  48 kHz per character, three prompts, and four states of the component reached from
  its construction by the handlers above.
\<close>

definition exampleDec :: "string \<Rightarrow> AudioBuffer option" where
  "exampleDec c =
     (if c = [] then None else Some \<lparr>bufLength = 48000 * length c, sampleRate = 48000\<rparr>)"

definition examplePrompts :: "(string \<times> Prompt) list" where
  "examplePrompts =
     [(''prompt-0'', \<lparr>promptId = ''prompt-0'', color = ''#9900ff'',
                      textP = ''Lush Strings'', weight = 0.5\<rparr>),
      (''prompt-1'', \<lparr>promptId = ''prompt-1'', color = ''#5200ff'',
                      textP = ''Punchy Kick'', weight = 1.2\<rparr>),
      (''prompt-2'', \<lparr>promptId = ''prompt-2'', color = ''#ff25f6'',
                      textP = ''Funk'', weight = 0\<rparr>)]"

definition exampleStopped :: PromptDj where
  "exampleStopped = firstUpdated 1000 (initialState examplePrompts)"

definition exampleLoading :: PromptDj where
  "exampleLoading = run exampleDec [PlayPause 0, ConnectResolved 0 5000] exampleStopped"

definition examplePlaying :: PromptDj where
  "examplePlaying =
     run exampleDec
       [PlayPause 0, ConnectResolved 0 5000, Message 1 (chunkMessage [''ab'']), TimerFires]
       exampleStopped"

definition exampleFilterNotice :: ServerMessage where
  "exampleFilterNotice =
     \<lparr>setupComplete = True, filteredPrompt = Some (''Lush Strings'', ''blocked''),
      audioChunks = None\<rparr>"

definition exampleKick :: "int list" where
  "exampleKick = [1, 0, 0, 0, 1, 0, 0, 0, 1, 0, 0, 0, 1, 0, 0, 0]"

definition exampleHat :: "int list" where
  "exampleHat = [0, 0, 1, 0, 0, 0, 1, 0, 0, 0, 1, 0, 0, 0, 1, 0]"

definition exampleSilent :: "int list" where
  "exampleSilent = [0, 0, 0, 0, 0, 0, 0, 0, 0, 0, 0, 0, 0, 0, 0, 0]"

definition exampleGrid :: "int list list" where
  "exampleGrid =
     (exampleKick # exampleSilent # exampleSilent # exampleHat # exampleSilent # exampleSilent # [])"

definition exampleFiltered :: PromptDj where
  "exampleFiltered =
     handleSequencerChange exampleGrid 0.8 2000
       (onmessage exampleDec 0 exampleFilterNotice exampleStopped)"

section \<open>Unfolding and evaluating the handlers\<close>

lemmas handler_defs = onmessage_def scheduleChunk_def onerror_def onclose_def timerFires_def
  sendRejected_def handlePlayPause_def handlePlayPauseResumes_def handlePlayPauseFails_def
  pauseAudio_def loadAudio_def stopAudio_def
  connectToSession_def setSessionPrompts_def throttle_def sendPrompts_def
  handlePromptChanged_def handleAddPrompt_def handlePromptRemoved_def
  handleSequencerChange_def handleSettingsChange_def handleReset_def

lemmas example_defs = examplePlaying_def exampleLoading_def exampleStopped_def
  exampleFiltered_def exampleFilterNotice_def exampleGrid_def exampleKick_def exampleHat_def
  exampleSilent_def firstUpdated_def
  initialState_def examplePrompts_def exampleDec_def chunkMessage_def bufferTime_def

lemma exampleStopped_fields:
  "playbackState exampleStopped = stopped"
  "nextStartTime exampleStopped = 0"
  "started exampleStopped = []"
  "decodeCalls exampleStopped = 0"
  "filteredPrompts exampleStopped = {}"
  by (simp_all add: example_defs handler_defs)

lemma exampleStopped_sync:
  "prompts exampleStopped = examplePrompts"
  "syncLastCall exampleStopped = 1000"
  "filteredPrompts exampleStopped = {}"
  "sequencerWeight exampleStopped = 0"
  "sessionCalls exampleStopped =
     [Connect,
      SetWeightedPrompts
        [\<lparr>promptId = ''prompt-0'', color = ''#9900ff'', textP = ''Lush Strings'', weight = 0.5\<rparr>,
         \<lparr>promptId = ''prompt-1'', color = ''#5200ff'', textP = ''Punchy Kick'', weight = 1.2\<rparr>]]"
  by (simp_all add: example_defs handler_defs promptsToSend_def userPromptsToSend_def
        generateSequencerPrompt_def)

lemma exampleLoading_fields:
  "playbackState exampleLoading = loading"
  "nextStartTime exampleLoading = 0"
  "outputNode exampleLoading = 0"
  "started exampleLoading = []"
  by (simp_all add: example_defs handler_defs)

lemma examplePlaying_fields:
  "playbackState examplePlaying = playing"
  "nextStartTime examplePlaying = 5"
  "outputNode examplePlaying = 0"
  "started examplePlaying = [(3, \<lparr>bufLength = 96000, sampleRate = 48000\<rparr>, 0)]"
  by (simp_all add: example_defs handler_defs duration_def)

lemma exampleFiltered_fields:
  "prompts exampleFiltered = examplePrompts"
  "filteredPrompts exampleFiltered = {''Lush Strings''}"
  "sequencerGrid exampleFiltered = exampleGrid"
  "sequencerWeight exampleFiltered = 0.8"
  by (simp_all add: exampleFiltered_def exampleFilterNotice_def exampleStopped_def
        firstUpdated_def initialState_def handler_defs)

section \<open>Underrun\<close>

text \<open>
  C1. An audio-chunk message is processed when the playback state is neither paused
  nor stopped and its first chunk decodes. For every such message handled while the
  cursor \<open>nextStartTime\<close> is non-zero and strictly less than the audio clock, the
  handler sets the playback state to loading, resets the cursor to 0 and starts no
  source: the log of started sources is what it was.
\<close>

theorem underrun_resets_cursor:
  assumes "playbackState s \<noteq> paused" and "playbackState s \<noteq> stopped"
    and "chunkBuffer dec e = Some audioBuffer"
    and "nextStartTime s \<noteq> 0" and "nextStartTime s < currentTime"
  shows "playbackState (onmessage dec currentTime e s) = loading
       \<and> nextStartTime (onmessage dec currentTime e s) = 0
       \<and> started (onmessage dec currentTime e s) = started s"
  using assms
  by (auto simp: onmessage_def scheduleChunk_def chunkBuffer_def Let_def
           split: option.splits list.splits prod.splits)

theorem underrun_resets_cursor_witness:
  "playbackState (onmessage exampleDec 9 (chunkMessage [''ab'']) examplePlaying) = loading
   \<and> nextStartTime (onmessage exampleDec 9 (chunkMessage [''ab'']) examplePlaying) = 0
   \<and> started (onmessage exampleDec 9 (chunkMessage [''ab'']) examplePlaying)
       = [(3, \<lparr>bufLength = 96000, sampleRate = 48000\<rparr>, 0)]"
  using underrun_resets_cursor [of examplePlaying exampleDec "chunkMessage [''ab'']"
      "\<lparr>bufLength = 96000, sampleRate = 48000\<rparr>" 9]
  by (simp add: examplePlaying_fields chunkMessage_def chunkBuffer_def exampleDec_def)

text \<open>
  The scheduling step alone, for a handler that resumes after the decoder in whatever
  state the component is by then: on an underrun it resets and starts nothing.
\<close>

lemma scheduleChunk_underrun:
  assumes "nextStartTime s \<noteq> 0" and "nextStartTime s < currentTime"
  shows "scheduleChunk currentTime audioBuffer s = s\<lparr>playbackState := loading, nextStartTime := 0\<rparr>"
  using assms by (simp add: scheduleChunk_def)

section \<open>Chunks that arrive while stopped or paused\<close>

text \<open>
  C3. For every message handled while the playback state is stopped or paused, the
  audio chunks it carries are discarded: the handler does what it does for the same
  message without chunks, the decoder is not called, no source is started, no timer is
  armed, and the cursor and the playback state are unchanged.
\<close>

theorem chunks_discarded_when_stopped_or_paused:
  assumes "playbackState s = stopped \<or> playbackState s = paused"
  shows "onmessage dec currentTime e s = onmessage dec currentTime (e\<lparr>audioChunks := None\<rparr>) s
       \<and> decodeCalls (onmessage dec currentTime e s) = decodeCalls s
       \<and> started (onmessage dec currentTime e s) = started s
       \<and> timers (onmessage dec currentTime e s) = timers s
       \<and> nextStartTime (onmessage dec currentTime e s) = nextStartTime s
       \<and> playbackState (onmessage dec currentTime e s) = playbackState s"
  using assms
  by (auto simp: onmessage_def Let_def split: option.splits list.splits prod.splits)

theorem chunks_discarded_when_stopped_or_paused_witness:
  "onmessage exampleDec 1 (chunkMessage [''ab'']) exampleStopped
     = onmessage exampleDec 1 ((chunkMessage [''ab''])\<lparr>audioChunks := None\<rparr>) exampleStopped
   \<and> decodeCalls (onmessage exampleDec 1 (chunkMessage [''ab'']) exampleStopped) = 0
   \<and> started (onmessage exampleDec 1 (chunkMessage [''ab'']) exampleStopped) = []
   \<and> nextStartTime (onmessage exampleDec 1 (chunkMessage [''ab'']) exampleStopped) = 0
   \<and> playbackState (onmessage exampleDec 1 (chunkMessage [''ab'']) exampleStopped) = stopped"
  using chunks_discarded_when_stopped_or_paused [of exampleStopped exampleDec 1
      "chunkMessage [''ab'']"]
  by (simp add: exampleStopped_fields onmessage_def chunkMessage_def)

section \<open>Only the first chunk of a message is used\<close>

text \<open>
  C10. For every message whose chunk list has a first chunk \<open>c\<close> and further chunks
  \<open>cs\<close>, the handler does exactly what it does for the message with the single chunk
  \<open>c\<close>: the further chunks are never read. It calls the decoder at most once and
  starts at most one source; when the message is processed without underrun, the one
  source it starts holds the buffer decoded from \<open>c\<close>.
\<close>

theorem only_first_chunk_used:
  "onmessage dec currentTime (e\<lparr>audioChunks := Some (c # cs)\<rparr>) s
     = onmessage dec currentTime (e\<lparr>audioChunks := Some [c]\<rparr>) s
   \<and> decodeCalls (onmessage dec currentTime (e\<lparr>audioChunks := Some (c # cs)\<rparr>) s)
       \<le> decodeCalls s + 1
   \<and> length (started (onmessage dec currentTime (e\<lparr>audioChunks := Some (c # cs)\<rparr>) s))
       \<le> length (started s) + 1
   \<and> (playbackState s \<noteq> paused \<and> playbackState s \<noteq> stopped \<and> dec c = Some audioBuffer
        \<and> \<not> underrun currentTime s \<longrightarrow>
       started (onmessage dec currentTime (e\<lparr>audioChunks := Some (c # cs)\<rparr>) s)
         = started s @ [(if nextStartTime s = 0 then currentTime + bufferTime
                         else nextStartTime s, audioBuffer, outputNode s)])"
  by (auto simp: onmessage_def scheduleChunk_def underrun_def bufferTime_def Let_def
           split: option.splits list.splits prod.splits)

theorem only_first_chunk_used_witness:
  "started (onmessage exampleDec 1 (chunkMessage [''ab'', ''c'', ''zzz'']) exampleLoading)
     = [(3, \<lparr>bufLength = 96000, sampleRate = 48000\<rparr>, 0)]
   \<and> onmessage exampleDec 1 (chunkMessage [''ab'', ''c'', ''zzz'']) exampleLoading
     = onmessage exampleDec 1 (chunkMessage [''ab'']) exampleLoading"
  using only_first_chunk_used [where dec = exampleDec and currentTime = 1
      and e = "chunkMessage []" and c = "''ab''" and cs = "[''c'', ''zzz'']"
      and s = exampleLoading and audioBuffer = "\<lparr>bufLength = 96000, sampleRate = 48000\<rparr>"]
  by (auto simp: exampleLoading_fields chunkMessage_def exampleDec_def underrun_def
        bufferTime_def)

section \<open>Session error and close\<close>

lemma onerror_effects:
  "connectionError (onerror t s)"
  "playbackState (onerror t s) = stopped"
  "nextStartTime (onerror t s) = 0"
  "toasts (onerror t s) = toasts s @ [connectionErrorToast]"
  "sessionCalls (onerror t s) = sessionCalls s @ [Stop]"
  "gainCalls (onerror t s) = gainCalls s @
     [(outputNode s, SetValueAtTime 0 t), (outputNode s, LinearRampToValueAtTime 1 (t + 0.1))]"
  by (simp_all add: onerror_def stopAudio_def)

lemma onclose_eq_onerror: "onclose t s = onerror t s"
  by (simp add: onclose_def onerror_def)

text \<open>
  C4. On a session error or close at audio clock 3 in the playing state
  \<open>examplePlaying\<close>, the component sets \<open>connectionError\<close>, moves to stopped, resets
  the cursor to 0, shows the connection-error notification and calls only \<open>stop\<close> on
  the session (no reconnect). The gain calls it makes are
  \<^verbatim>\<open>setValueAtTime(0, 3)\<close> followed by \<^verbatim>\<open>linearRampToValueAtTime(1, 3.1)\<close>: the output
  gain is ramped up to 1, where the specification has a ramp to 0.
\<close>

theorem session_error_ramps_gain_up:
  "gainCalls (onerror 3 examplePlaying) = gainCalls examplePlaying @
     [(0, SetValueAtTime 0 3), (0, LinearRampToValueAtTime 1 (3 + 0.1))]
   \<and> gainCalls (onclose 3 examplePlaying) = gainCalls examplePlaying @
     [(0, SetValueAtTime 0 3), (0, LinearRampToValueAtTime 1 (3 + 0.1))]
   \<and> connectionError (onerror 3 examplePlaying)
   \<and> playbackState (onerror 3 examplePlaying) = stopped
   \<and> nextStartTime (onerror 3 examplePlaying) = 0
   \<and> toasts (onerror 3 examplePlaying) = toasts examplePlaying @ [connectionErrorToast]
   \<and> sessionCalls (onerror 3 examplePlaying) = sessionCalls examplePlaying @ [Stop]"
  by (simp add: onclose_eq_onerror onerror_effects examplePlaying_fields)

text \<open>The sibling \<open>pauseAudio\<close> ramps the gain from 1 down to 0.\<close>

lemma pauseAudio_ramps_gain_down:
  "gainCalls (pauseAudio t s) = gainCalls s @
     [(outputNode s, SetValueAtTime 1 t), (outputNode s, LinearRampToValueAtTime 0 (t + 0.1))]"
  by (simp add: pauseAudio_def)

section \<open>The playback state machine\<close>




text \<open>
  The resolution of a connection out of playing: the user presses play twice while
  stopped with the connection in error, the first connection resolves, a chunk anchors
  the cursor and the timer fires, then the second connection resolves.
\<close>

lemma connection_resolves_while_playing:
  "playbackState
     (run exampleDec
        [PlayPause 0, PlayPause 0.5, ConnectResolved 1 5000,
         Message 1 (chunkMessage [''ab'']), TimerFires]
        exampleStopped) = playing
   \<and> playbackState
     (run exampleDec
        [PlayPause 0, PlayPause 0.5, ConnectResolved 1 5000,
         Message 1 (chunkMessage [''ab'']), TimerFires, ConnectResolved 4 6000]
        exampleStopped) = loading"
  by (simp add: example_defs handler_defs duration_def)

text \<open>
  The timer left aside above: it is never cancelled and its callback does not look at
  the state, so it moves a machine that was stopped in the meantime to playing.
\<close>

lemma timer_fires_after_stop:
  "playbackState
     (run exampleDec
        [PlayPause 0, ConnectResolved 0 5000, Message 1 (chunkMessage [''ab'']), PlayPause 2]
        exampleStopped) = stopped
   \<and> playbackState
     (run exampleDec
        [PlayPause 0, ConnectResolved 0 5000, Message 1 (chunkMessage [''ab'']), PlayPause 2,
         TimerFires]
        exampleStopped) = playing"
  by (simp add: example_defs handler_defs duration_def)

section \<open>The throttled prompt sync\<close>

text \<open>The closure alone: calls made before the window has elapsed change nothing.\<close>

lemma throttle_suppressed:
  assumes "\<forall>(t, a) \<in> set calls. t < lastCall + delay"
  shows "throttledCalls func delay calls (lastCall, s) = (lastCall, s)"
  using assms
  by (induction calls) (auto simp: throttle_def)

lemma throttle_opening_call:
  assumes "delay \<le> t0 - lastCall"
    and "\<forall>(t, a) \<in> set calls. t < t0 + delay"
  shows "throttledCalls func delay ((t0, a0) # calls) (lastCall, s) = (t0, func a0 s)"
  using assms(1) throttle_suppressed [OF assms(2)]
  by (simp add: throttle_def)

text \<open>
  The component. An invocation of the prompt sync that finds the window open sends the
  payload of the state it finds, the edit of its own handler included; one that finds
  the window closed makes no call on the session.
\<close>

lemma promptsToSend_after_send:
  "promptsToSend ((sendPrompts s)\<lparr>syncLastCall := t\<rparr>) = promptsToSend s"
proof -
  let ?s = "(sendPrompts s)\<lparr>syncLastCall := t\<rparr>"
  have "generateSequencerPrompt ?s = generateSequencerPrompt s"
    by (simp add: generateSequencerPrompt_def sendPrompts_def)
  moreover have "userPromptsToSend ?s = userPromptsToSend s"
    by (simp add: userPromptsToSend_def sendPrompts_def)
  moreover have "sequencerWeight ?s = sequencerWeight s"
    by (simp add: sendPrompts_def)
  ultimately show ?thesis
    by (simp add: promptsToSend_def Let_def)
qed

lemma setSessionPrompts_fires:
  assumes "200 \<le> t - syncLastCall s"
  shows "setSessionPrompts t s = (sendPrompts s)\<lparr>syncLastCall := t\<rparr>"
  using assms by (simp add: setSessionPrompts_def throttle_def)

lemma setSessionPrompts_suppressed:
  assumes "t < syncLastCall s + 200"
  shows "setSessionPrompts t s = s"
  using assms by (simp add: setSessionPrompts_def throttle_def)

lemma sync_call_opens_window:
  assumes "200 \<le> t0 - syncLastCall s"
  shows "sessionCalls (setSessionPrompts t0 s)
           = sessionCalls s @ [SetWeightedPrompts (promptsToSend (setSessionPrompts t0 s))]
       \<and> syncLastCall (setSessionPrompts t0 s) = t0"
proof -
  have fires: "setSessionPrompts t0 s = (sendPrompts s)\<lparr>syncLastCall := t0\<rparr>"
    using assms by (rule setSessionPrompts_fires)
  have "sessionCalls ((sendPrompts s)\<lparr>syncLastCall := t0\<rparr>)
          = sessionCalls s @ [SetWeightedPrompts (promptsToSend s)]"
    by (simp add: sendPrompts_def)
  moreover have "syncLastCall ((sendPrompts s)\<lparr>syncLastCall := t0\<rparr>) = t0"
    by simp
  ultimately show ?thesis
    unfolding fires promptsToSend_after_send by (rule conjI)
qed

lemma sentPayloads_append:
  "sentPayloads (calls @ calls') = sentPayloads calls @ sentPayloads calls'"
  by (induction calls rule: sentPayloads.induct) simp_all

lemma loadAudio_sync_fields:
  "sentPayloads (sessionCalls (loadAudio t s)) = sentPayloads (sessionCalls s)"
  "syncLastCall (loadAudio t s) = syncLastCall s"
  "promptsToSend (loadAudio t s) = promptsToSend s"
  by (simp_all add: loadAudio_def sentPayloads_append promptsToSend_def
        userPromptsToSend_def generateSequencerPrompt_def Let_def)

text \<open>
  Every handler that invokes the prompt sync does so once, on a state whose log of
  session calls and whose \<open>syncLastCall\<close> are still those it found; after the
  invocation it makes no further \<^verbatim>\<open>setWeightedPrompts\<close> call and changes nothing the
  payload is computed from.
\<close>

lemma invocation_form:
  assumes "callsSync ev s" and "dateNow ev = Some t0"
  shows "\<exists>s'. sessionCalls s' = sessionCalls s \<and> syncLastCall s' = syncLastCall s
            \<and> sentPayloads (sessionCalls (step dec ev s))
                = sentPayloads (sessionCalls (setSessionPrompts t0 s'))
            \<and> syncLastCall (step dec ev s) = syncLastCall (setSessionPrompts t0 s')
            \<and> promptsToSend (step dec ev s) = promptsToSend (setSessionPrompts t0 s')"
proof (cases ev)
  case (PromptChanged pid newText w now)
  with assms obtain prompt where "map_of (prompts s) pid = Some prompt" and "now = t0"
    by auto
  let ?s' = "s\<lparr>prompts := mapSet pid (prompt\<lparr>textP := newText, weight := w\<rparr>) (prompts s)\<rparr>"
  from \<open>map_of (prompts s) pid = Some prompt\<close> \<open>now = t0\<close>
  have "step dec ev s = setSessionPrompts t0 ?s'"
    by (simp add: PromptChanged handlePromptChanged_def)
  moreover have "sessionCalls ?s' = sessionCalls s \<and> syncLastCall ?s' = syncLastCall s"
    by simp
  ultimately show ?thesis by metis
next
  case (AddPrompt col now)
  with assms have "now = t0" by simp
  let ?s' = "s\<lparr>nextPromptId := nextPromptId s + 1,
       prompts := mapSet (''prompt-'' @ showNat (nextPromptId s))
         \<lparr>promptId = ''prompt-'' @ showNat (nextPromptId s), color = col,
          textP = ''New Prompt'', weight = 0\<rparr> (prompts s)\<rparr>"
  from \<open>now = t0\<close> have "step dec ev s = setSessionPrompts t0 ?s'"
    by (simp add: AddPrompt handleAddPrompt_def Let_def)
  moreover have "sessionCalls ?s' = sessionCalls s \<and> syncLastCall ?s' = syncLastCall s"
    by simp
  ultimately show ?thesis by metis
next
  case (PromptRemoved pid now)
  with assms have "map_of (prompts s) pid \<noteq> None" and "now = t0"
    by auto
  let ?s' = "s\<lparr>prompts := mapDelete pid (prompts s)\<rparr>"
  from \<open>map_of (prompts s) pid \<noteq> None\<close> \<open>now = t0\<close>
  have "step dec ev s = setSessionPrompts t0 ?s'"
    by (simp add: PromptRemoved handlePromptRemoved_def)
  moreover have "sessionCalls ?s' = sessionCalls s \<and> syncLastCall ?s' = syncLastCall s"
    by simp
  ultimately show ?thesis by metis
next
  case (SequencerChanged grid w now)
  with assms have "now = t0" by simp
  let ?s' = "s\<lparr>sequencerGrid := grid, sequencerWeight := w\<rparr>"
  from \<open>now = t0\<close> have "step dec ev s = setSessionPrompts t0 ?s'"
    by (simp add: SequencerChanged handleSequencerChange_def)
  moreover have "sessionCalls ?s' = sessionCalls s \<and> syncLastCall ?s' = syncLastCall s"
    by simp
  ultimately show ?thesis by metis
next
  case (ConnectResolved currentTime now)
  with assms have "connecting s \<noteq> 0" and "now = t0" by simp_all
  let ?s' = "s\<lparr>connecting := connecting s - 1\<rparr>"
  from \<open>connecting s \<noteq> 0\<close> \<open>now = t0\<close>
  have "step dec ev s = loadAudio currentTime (setSessionPrompts t0 ?s')"
    by (simp add: ConnectResolved handlePlayPauseResumes_def)
  moreover have "sessionCalls ?s' = sessionCalls s \<and> syncLastCall ?s' = syncLastCall s"
    by simp
  ultimately show ?thesis
    by (metis loadAudio_sync_fields)
qed (use assms in simp_all)

lemma invocation_opens_window:
  assumes "callsSync ev s" and "dateNow ev = Some t0" and "200 \<le> t0 - syncLastCall s"
  shows "sentPayloads (sessionCalls (step dec ev s))
           = sentPayloads (sessionCalls s) @ [promptsToSend (step dec ev s)]
       \<and> syncLastCall (step dec ev s) = t0"
proof -
  from invocation_form [OF assms(1) assms(2), of dec] obtain s'
    where s': "sessionCalls s' = sessionCalls s" "syncLastCall s' = syncLastCall s"
      "sentPayloads (sessionCalls (step dec ev s))
         = sentPayloads (sessionCalls (setSessionPrompts t0 s'))"
      "syncLastCall (step dec ev s) = syncLastCall (setSessionPrompts t0 s')"
      "promptsToSend (step dec ev s) = promptsToSend (setSessionPrompts t0 s')"
    by blast
  from assms(3) s'(2) have "200 \<le> t0 - syncLastCall s'" by simp
  from sync_call_opens_window [OF this]
  have "sentPayloads (sessionCalls (setSessionPrompts t0 s'))
          = sentPayloads (sessionCalls s') @ [promptsToSend (setSessionPrompts t0 s')]"
    and "syncLastCall (setSessionPrompts t0 s') = t0"
    by (simp_all add: sentPayloads_append)
  then show ?thesis
    unfolding s'(3) s'(4) s'(5) s'(1) by (rule conjI)
qed

text \<open>
  An event handled while the window is closed: if it reads the wall clock at all, the
  reading is less than 200 ms after the last invocation that fired.
\<close>

lemma event_in_closed_window:
  assumes "\<forall>t. dateNow ev = Some t \<longrightarrow> t < syncLastCall s + 200"
  shows "sentPayloads (sessionCalls (step dec ev s)) = sentPayloads (sessionCalls s)
       \<and> syncLastCall (step dec ev s) = syncLastCall s"
  using assms
  by (cases ev)
     (auto simp: onmessage_def scheduleChunk_def onerror_def onclose_def timerFires_def
                 sendRejected_def handlePlayPause_def handlePlayPauseResumes_def
                 handlePlayPauseFails_def pauseAudio_def loadAudio_def stopAudio_def
                 connectToSession_def handlePromptChanged_def handleAddPrompt_def
                 handlePromptRemoved_def handleSequencerChange_def handleSettingsChange_def
                 handleReset_def setSessionPrompts_suppressed sentPayloads_append Let_def
           split: option.splits list.splits prod.splits)

lemma events_in_closed_window:
  assumes "\<forall>ev \<in> set evs. \<forall>t. dateNow ev = Some t \<longrightarrow> t < syncLastCall s + 200"
  shows "sentPayloads (sessionCalls (run dec evs s)) = sentPayloads (sessionCalls s)
       \<and> syncLastCall (run dec evs s) = syncLastCall s"
  using assms
proof (induction evs arbitrary: s)
  case Nil
  then show ?case by simp
next
  case (Cons ev evs)
  from Cons.prems have "\<forall>t. dateNow ev = Some t \<longrightarrow> t < syncLastCall s + 200"
    by simp
  note one = event_in_closed_window [OF this, of dec]
  have "\<forall>ev' \<in> set evs. \<forall>t. dateNow ev' = Some t \<longrightarrow> t < syncLastCall (step dec ev s) + 200"
    using Cons.prems one by simp
  from Cons.IH [OF this] one show ?case by simp
qed

text \<open>
  C6. A burst of invocations of the throttled prompt sync is opened by a handler that
  invokes \<open>setSessionPrompts\<close> at \<^verbatim>\<open>Date.now()\<close> = \<open>t0\<close>, at least 200 ms after the last
  invocation that fired (a quiet period), and goes on with any events of the component
  whose readings of \<^verbatim>\<open>Date.now()\<close>, for those that invoke the sync, are below
  \<open>t0 + 200\<close>. For every burst, exactly one \<^verbatim>\<open>session.setWeightedPrompts\<close> call is
  added to the calls made before, at once, by the invocation that opens the window; its
  payload is the one computed from the state at that invocation (the edit of its own
  handler included, the later edits of the burst not); and the closure remembers \<open>t0\<close>.
\<close>

theorem prompt_sync_burst_sends_once:
  assumes "callsSync ev0 s" and "dateNow ev0 = Some t0"
    and "200 \<le> t0 - syncLastCall s"
    and "\<forall>ev \<in> set evs. \<forall>t. dateNow ev = Some t \<longrightarrow> t < t0 + 200"
  shows "sentPayloads (sessionCalls (run dec (ev0 # evs) s))
           = sentPayloads (sessionCalls s) @ [promptsToSend (step dec ev0 s)]
       \<and> syncLastCall (run dec (ev0 # evs) s) = t0"
proof -
  note fired = invocation_opens_window [OF assms(1) assms(2) assms(3), of dec]
  have "\<forall>ev \<in> set evs. \<forall>t. dateNow ev = Some t \<longrightarrow> t < syncLastCall (step dec ev0 s) + 200"
    using assms(4) fired by simp
  from events_in_closed_window [OF this] fired show ?thesis by simp
qed

theorem prompt_sync_burst_sends_once_witness:
  "sentPayloads (sessionCalls
     (run exampleDec
        (PromptChanged ''prompt-2'' ''Funk'' 1.5 5000 #
         [PromptChanged ''prompt-2'' ''Funk'' 1.6 5005,
          PromptChanged ''prompt-2'' ''Funk'' 1.7 5010,
          Message 1 exampleFilterNotice,
          SequencerChanged exampleGrid 0.8 5015,
          PromptChanged ''prompt-1'' ''Punchy Kick'' 0 5020,
          AddPrompt ''#2af6de'' 5025,
          PromptRemoved ''prompt-0'' 5030,
          PlayPause 2,
          PromptChanged ''prompt-2'' ''Dubstep'' 1.8 5035,
          SequencerChanged exampleGrid 0 5040,
          PromptChanged ''prompt-2'' ''Dubstep'' 2 5049])
        exampleStopped))
   = [[\<lparr>promptId = ''prompt-0'', color = ''#9900ff'', textP = ''Lush Strings'', weight = 0.5\<rparr>,
       \<lparr>promptId = ''prompt-1'', color = ''#5200ff'', textP = ''Punchy Kick'', weight = 1.2\<rparr>],
      [\<lparr>promptId = ''prompt-0'', color = ''#9900ff'', textP = ''Lush Strings'', weight = 0.5\<rparr>,
       \<lparr>promptId = ''prompt-1'', color = ''#5200ff'', textP = ''Punchy Kick'', weight = 1.2\<rparr>,
       \<lparr>promptId = ''prompt-2'', color = ''#ff25f6'', textP = ''Funk'', weight = 1.5\<rparr>]]"
  (is "sentPayloads (sessionCalls (run exampleDec (?ev0 # ?evs) exampleStopped)) = ?payloads")
proof -
  have h1: "callsSync ?ev0 exampleStopped"
    by (simp add: exampleStopped_sync examplePrompts_def)
  have h2: "dateNow ?ev0 = Some 5000"
    by simp
  have h3: "200 \<le> 5000 - syncLastCall exampleStopped"
    by (simp add: exampleStopped_sync)
  have h4: "\<forall>ev \<in> set ?evs. \<forall>t. dateNow ev = Some t \<longrightarrow> t < 5000 + 200"
    by simp
  have payload: "sentPayloads (sessionCalls exampleStopped)
      @ [promptsToSend (step exampleDec ?ev0 exampleStopped)] = ?payloads"
    by (simp add: exampleStopped_sync examplePrompts_def handlePromptChanged_def
          setSessionPrompts_fires sendPrompts_def promptsToSend_def
          userPromptsToSend_def generateSequencerPrompt_def)
  have "sentPayloads (sessionCalls (run exampleDec (?ev0 # ?evs) exampleStopped))
      = sentPayloads (sessionCalls exampleStopped)
        @ [promptsToSend (step exampleDec ?ev0 exampleStopped)]"
    using prompt_sync_burst_sends_once [OF h1 h2 h3 h4, of exampleDec] by (rule conjunct1)
  with payload show ?thesis
    by (rule trans [rotated])
qed

text \<open>Ten bare invocations within 50 ms of a quiet period send once as well.\<close>

lemma setSessionPrompts_burst:
  "sessionCalls
     (fold setSessionPrompts [5000, 5005, 5010, 5015, 5020, 5025, 5030, 5035, 5040, 5049]
        exampleStopped)
     = sessionCalls exampleStopped @ [SetWeightedPrompts (promptsToSend exampleStopped)]"
  by (simp add: setSessionPrompts_def throttle_def sendPrompts_def promptsToSend_def
        userPromptsToSend_def generateSequencerPrompt_def Let_def exampleStopped_def
        firstUpdated_def connectToSession_def initialState_def)

section \<open>The payload sent to the session\<close>

lemma forEachTrack_eq:
  "forEachTrack tracks i (description, activeInstruments) =
     (description @ concat (map (\<lambda>(j, track). clause j)
                      (filter (\<lambda>(j, track). 1 \<in> set track) (enumerate i tracks))),
      activeInstruments + length (filter (\<lambda>track. 1 \<in> set track) tracks))"
  by (induction tracks arbitrary: i description activeInstruments) (auto simp: hasNotes_def)

lemma preamble_nonempty: "preamble \<noteq> []"
  by (simp add: preamble_def)

lemma generateSequencerPrompt_eq:
  "generateSequencerPrompt s =
     (if sequencerWeight s \<noteq> 0 \<and> (\<exists>track \<in> set (sequencerGrid s). 1 \<in> set track)
      then preamble @ concat (map (\<lambda>(j, track). clause j)
             (filter (\<lambda>(j, track). 1 \<in> set track) (enumerate 0 (sequencerGrid s))))
      else [])"
  by (auto simp: generateSequencerPrompt_def forEachTrack_eq filter_empty_conv)

lemma promptsToSend_split:
  "promptsToSend s = userPromptsToSend s
   \<or> promptsToSend s = userPromptsToSend s @
        [\<lparr>promptId = sequencerId, color = ''#ff0044'',
          textP = generateSequencerPrompt s, weight = sequencerWeight s\<rparr>]
      \<and> sequencerWeight s > 0"
  by (simp add: promptsToSend_def Let_def)

text \<open>
  C7. For every prompt map and filtered-text set, the payload is the list of the user
  prompts, in map order, whose weight is not 0 and whose text is not in the filtered
  set, followed by nothing or by the one synthetic sequencer prompt. So no prompt of
  weight 0 is in the payload, and a user prompt (its id is not the sequencer's) is in
  the payload exactly when its weight is not 0 and its text is not filtered.
\<close>

theorem payload_user_prompts:
  "(\<exists>tail. promptsToSend s =
        filter (\<lambda>p. weight p \<noteq> 0 \<and> textP p \<notin> filteredPrompts s) (map snd (prompts s)) @ tail
      \<and> (tail = [] \<or> tail = [\<lparr>promptId = sequencerId, color = ''#ff0044'',
                                textP = generateSequencerPrompt s,
                                weight = sequencerWeight s\<rparr>]))
   \<and> (\<forall>q \<in> set (promptsToSend s). weight q \<noteq> 0)
   \<and> (\<forall>p \<in> set (map snd (prompts s)). promptId p \<noteq> sequencerId \<longrightarrow>
         (p \<in> set (promptsToSend s) \<longleftrightarrow> weight p \<noteq> 0 \<and> textP p \<notin> filteredPrompts s))"
proof -
  have user: "userPromptsToSend s =
      filter (\<lambda>p. weight p \<noteq> 0 \<and> textP p \<notin> filteredPrompts s) (map snd (prompts s))"
    unfolding userPromptsToSend_def by (rule filter_cong) auto
  show ?thesis
    using promptsToSend_split [of s] unfolding user
    by (elim disjE conjE) auto
qed

theorem payload_user_prompts_witness:
  "promptsToSend exampleFiltered =
     [\<lparr>promptId = ''prompt-1'', color = ''#5200ff'', textP = ''Punchy Kick'', weight = 1.2\<rparr>,
      \<lparr>promptId = sequencerId, color = ''#ff0044'',
       textP = generateSequencerPrompt exampleFiltered, weight = 0.8\<rparr>]"
  using payload_user_prompts [of exampleFiltered]
  by (simp add: exampleFiltered_fields examplePrompts_def exampleGrid_def exampleKick_def
        exampleHat_def exampleSilent_def promptsToSend_def
        userPromptsToSend_def generateSequencerPrompt_eq preamble_nonempty Let_def)

text \<open>
  C8. The payload is the user prompts followed, if and only if the sequencer weight is
  above 0 and some track has a step equal to 1, by one synthetic prompt with the id
  \<open>prompt-sequencer\<close>, the sequencer weight as its weight, and as its text the preamble
  followed by one clause per track that has a step equal to 1, in track order (the
  clause of track \<open>j\<close> names \<open>instruments ! j\<close> for the six tracks). When no user
  prompt has that id, a prompt with that id is in the payload if and only if the
  condition holds.
\<close>

theorem sequencer_prompt_in_payload:
  "promptsToSend s =
     userPromptsToSend s @
     (if sequencerWeight s > 0 \<and> (\<exists>track \<in> set (sequencerGrid s). 1 \<in> set track)
      then [\<lparr>promptId = sequencerId, color = ''#ff0044'',
             textP = preamble @ concat (map (\<lambda>(j, track). clause j)
                       (filter (\<lambda>(j, track). 1 \<in> set track)
                          (enumerate 0 (sequencerGrid s)))),
             weight = sequencerWeight s\<rparr>]
      else [])
   \<and> ((\<forall>p \<in> set (map snd (prompts s)). promptId p \<noteq> sequencerId) \<longrightarrow>
        ((\<exists>q \<in> set (promptsToSend s). promptId q = sequencerId) \<longleftrightarrow>
           sequencerWeight s > 0 \<and> (\<exists>track \<in> set (sequencerGrid s). 1 \<in> set track)))"
  by (auto simp: promptsToSend_def generateSequencerPrompt_eq preamble_nonempty Let_def
                 userPromptsToSend_def)

theorem sequencer_prompt_in_payload_witness:
  "last (promptsToSend exampleFiltered) =
     \<lparr>promptId = ''prompt-sequencer'', color = ''#ff0044'',
      textP = ''A brutal heavy bass and percussion track. '' @
              ''It features a prominent kick drum. '' @
              ''It features a prominent closed hi-hat. '',
      weight = 0.8\<rparr>
   \<and> (\<exists>q \<in> set (promptsToSend exampleFiltered). promptId q = sequencerId)"
  using sequencer_prompt_in_payload [of exampleFiltered]
  by (simp add: exampleFiltered_fields examplePrompts_def exampleGrid_def exampleKick_def
        exampleHat_def exampleSilent_def sequencerId_def
        preamble_def clause_def instrumentAt_def instruments_def enumerate_eq_zip upt_rec)

section \<open>The set of filtered prompt texts\<close>

lemma step_filteredPrompts:
  "filteredPrompts (step dec ev s) =
     (case ev of
        Message t e \<Rightarrow> (case filteredPrompt e of
                          None \<Rightarrow> filteredPrompts s
                        | Some (txt, reason) \<Rightarrow> insert txt (filteredPrompts s))
      | _ \<Rightarrow> filteredPrompts s)"
  by (cases ev)
     (auto simp: handler_defs Let_def split: option.splits list.splits prod.splits)

lemma step_filteredPrompts_mono: "filteredPrompts s \<subseteq> filteredPrompts (step dec ev s)"
  by (auto simp: step_filteredPrompts split: Event.splits option.splits)

text \<open>
  C9, as the specification states it, fails: after the server has flagged the text of a
  prompt, opening a new session with \<open>connectToSession\<close> leaves the text in the set.
\<close>

theorem reconnect_keeps_filtered_set:
  "filteredPrompts
     (connectToSession (onmessage exampleDec 0 exampleFilterNotice exampleStopped))
     = {''Lush Strings''}"
  by (simp add: example_defs handler_defs)

text \<open>
  C9, amended. The set of filtered texts only grows: a \<open>filteredPrompt\<close> message adds
  its text, and over every run of events of the component the set at the start is
  contained in the set at the end. Opening a new session with \<open>connectToSession\<close>
  leaves the set as it is.
\<close>

theorem filtered_set_never_shrinks:
  "filteredPrompts s \<subseteq> filteredPrompts (run dec evs s)
   \<and> filteredPrompts (connectToSession s) = filteredPrompts s
   \<and> (filteredPrompt e = Some (txt, reason) \<longrightarrow>
        filteredPrompts (onmessage dec t e s) = insert txt (filteredPrompts s))"
proof (intro conjI)
  show "filteredPrompts s \<subseteq> filteredPrompts (run dec evs s)"
  proof (induction evs arbitrary: s)
    case Nil
    then show ?case by simp
  next
    case (Cons ev evs)
    have "filteredPrompts s \<subseteq> filteredPrompts (step dec ev s)"
      by (rule step_filteredPrompts_mono)
    also have "\<dots> \<subseteq> filteredPrompts (run dec evs (step dec ev s))"
      by (rule Cons.IH)
    finally show ?case by simp
  qed
  show "filteredPrompts (connectToSession s) = filteredPrompts s"
    by (simp add: connectToSession_def)
  show "filteredPrompt e = Some (txt, reason) \<longrightarrow>
        filteredPrompts (onmessage dec t e s) = insert txt (filteredPrompts s)"
    using step_filteredPrompts [of dec "Message t e" s] by simp
qed

theorem filtered_set_never_shrinks_witness:
  "''Lush Strings'' \<in> filteredPrompts
      (run exampleDec
         [OnError 1, PlayPause 2, ConnectResolved 2 9000, PromptRemoved ''prompt-0'' 9500]
         exampleFiltered)
   \<and> filteredPrompts (onmessage exampleDec 3
        \<lparr>setupComplete = False, filteredPrompt = Some (''Funk'', ''blocked''),
         audioChunks = None\<rparr> exampleFiltered) = {''Funk'', ''Lush Strings''}"
  using filtered_set_never_shrinks [of exampleFiltered exampleDec
      "[OnError 1, PlayPause 2, ConnectResolved 2 9000, PromptRemoved ''prompt-0'' 9500]"
      "\<lparr>setupComplete = False, filteredPrompt = Some (''Funk'', ''blocked''),
        audioChunks = None\<rparr>" "''Funk''" "''blocked''" 3]
  by (auto simp: exampleFiltered_fields)

end
